theory Spec2Isabelle
  imports Complex_Main
begin

section \<open>Values of the detection flow\<close>

text \<open>
  The program is the script \<^verbatim>\<open>app.py\<close>. From the point where image bytes are at hand
  (line 63) it posts them to the detection endpoint, parses the JSON answer, derives one
  size per bounding box and renders three bucket counts.

  Python numbers are embedded in the reals: a JSON integer and a JSON float are both
  \<open>JNum\<close>, and arithmetic is exact (rounding and overflow of IEEE doubles are outside
  this development). The one non-real value the script can itself create is the
  not-a-number that \<^verbatim>\<open>np.sqrt\<close> returns for a negative argument; it is kept as \<open>NaN\<close>.
\<close>

datatype json =
    JNull
  | JBool bool
  | JNum real
  | JStr string
  | JArr "json list"
  | JObj "(string \<times> json) list"
    \<comment> \<open>the items of a parsed dict in insertion order; the keys of a dict are distinct\<close>

datatype pyfloat = Fin real | NaN

datatype py_error = TypeError | AttributeError | ValueError | JSONDecodeError

subsection \<open>Configuration (lines 9--12)\<close>

record config =
  api_url :: string
  example_dir :: string
  pixel_to_nm :: real
  risk_threshold :: real

definition app_config :: config where
  "app_config =
     \<lparr> api_url = ''https://microplastic-detection-backend.onrender.com/detect'',
       example_dir = ''Example_images'',
       pixel_to_nm = 100,
       risk_threshold = 15 \<rparr>"

subsection \<open>Python primitives the script relies on\<close>

text \<open>\<^verbatim>\<open>d.get(k, default)\<close>: only a dict has the method; every other value raises
  \<^verbatim>\<open>AttributeError\<close>.\<close>

fun dict_get :: "json \<Rightarrow> string \<Rightarrow> json \<Rightarrow> py_error + json" where
  "dict_get (JObj kvs) k d = Inr (case map_of kvs k of None \<Rightarrow> d | Some v \<Rightarrow> v)"
| "dict_get JNull k d = Inl AttributeError"
| "dict_get (JBool b) k d = Inl AttributeError"
| "dict_get (JNum r) k d = Inl AttributeError"
| "dict_get (JStr s) k d = Inl AttributeError"
| "dict_get (JArr xs) k d = Inl AttributeError"

text \<open>Iteration, as \<^verbatim>\<open>enumerate(boxes, start=1)\<close> needs it: a list yields its elements, a
  string its characters, a dict its keys; \<^verbatim>\<open>None\<close>, booleans and numbers are not iterable.\<close>

fun py_iter :: "json \<Rightarrow> py_error + json list" where
  "py_iter (JArr xs) = Inr xs"
| "py_iter (JStr s) = Inr (map (\<lambda>c. JStr [c]) s)"
| "py_iter (JObj kvs) = Inr (map (\<lambda>kv. JStr (fst kv)) kvs)"
| "py_iter JNull = Inl TypeError"
| "py_iter (JBool b) = Inl TypeError"
| "py_iter (JNum r) = Inl TypeError"

text \<open>A value used as a number. A boolean is the integer 0 or 1. For \<^verbatim>\<open>None\<close>, a string,
  a list or a dict, one of the steps \<^verbatim>\<open>x * PIXEL_TO_NM\<close>, \<^verbatim>\<open>width_nm * height_nm\<close>,
  \<^verbatim>\<open>np.sqrt\<close>, the \<^verbatim>\<open>.1f\<close> format (lines 105--116) or the subtraction of line 129 raises
  \<^verbatim>\<open>TypeError\<close> before anything is displayed for that value.\<close>

fun as_num :: "json \<Rightarrow> py_error + real" where
  "as_num (JNum r) = Inr r"
| "as_num (JBool b) = Inr (if b then 1 else 0)"
| "as_num JNull = Inl TypeError"
| "as_num (JStr s) = Inl TypeError"
| "as_num (JArr xs) = Inl TypeError"
| "as_num (JObj kvs) = Inl TypeError"

text \<open>\<^verbatim>\<open>np.sqrt\<close>: not-a-number below zero (HOL's \<open>sqrt\<close> would mirror the root instead).\<close>

fun np_sqrt :: "real \<Rightarrow> pyfloat" where
  "np_sqrt x = (if x < 0 then NaN else Fin (sqrt x))"

text \<open>Float arithmetic and comparison with not-a-number: arithmetic propagates it,
  every comparison with it is false.\<close>

fun fadd :: "pyfloat \<Rightarrow> pyfloat \<Rightarrow> pyfloat" where
  "fadd (Fin a) (Fin b) = Fin (a + b)"
| "fadd NaN y = NaN"
| "fadd x NaN = NaN"

fun fscale :: "pyfloat \<Rightarrow> real \<Rightarrow> pyfloat" where
  "fscale (Fin a) c = Fin (a * c)"
| "fscale NaN c = NaN"

fun fdiv :: "pyfloat \<Rightarrow> real \<Rightarrow> pyfloat" where
  "fdiv (Fin a) c = Fin (a / c)"
| "fdiv NaN c = NaN"

fun flt :: "pyfloat \<Rightarrow> pyfloat \<Rightarrow> bool" where
  "flt (Fin a) (Fin b) = (a < b)"
| "flt NaN y = False"
| "flt x NaN = False"

fun fle :: "pyfloat \<Rightarrow> pyfloat \<Rightarrow> bool" where
  "fle (Fin a) (Fin b) = (a \<le> b)"
| "fle NaN y = False"
| "fle x NaN = False"

fun fgt :: "pyfloat \<Rightarrow> pyfloat \<Rightarrow> bool" where
  "fgt x y = flt y x"

fun fge :: "pyfloat \<Rightarrow> pyfloat \<Rightarrow> bool" where
  "fge x y = fle y x"

text \<open>The builtins \<^verbatim>\<open>min\<close> and \<^verbatim>\<open>max\<close>: start from the first item and replace the
  candidate by a later item that compares strictly below (above) it; on an empty
  sequence they raise \<^verbatim>\<open>ValueError\<close>.\<close>

fun py_min :: "pyfloat list \<Rightarrow> py_error + pyfloat" where
  "py_min [] = Inl ValueError"
| "py_min (x # xs) = Inr (foldl (\<lambda>m s. if flt s m then s else m) x xs)"

fun py_max :: "pyfloat list \<Rightarrow> py_error + pyfloat" where
  "py_max [] = Inl ValueError"
| "py_max (x # xs) = Inr (foldl (\<lambda>m s. if fgt s m then s else m) x xs)"

text \<open>\<^verbatim>\<open>sum(xs)\<close> adds from the left, starting at 0; \<^verbatim>\<open>sum(p(s) for s in xs)\<close> adds one
  for every item that satisfies \<open>p\<close>.\<close>

definition py_sum :: "pyfloat list \<Rightarrow> pyfloat" where
  "py_sum xs = foldl fadd (Fin 0) xs"

definition py_count :: "(pyfloat \<Rightarrow> bool) \<Rightarrow> pyfloat list \<Rightarrow> int" where
  "py_count p xs = foldl (\<lambda>acc s. acc + (if p s then 1 else 0)) 0 xs"

section \<open>What the page shows\<close>

text \<open>
  Every Streamlit call that displays something is one event, in call order. The texts
  are the source's without their leading emoji; an f-string is kept as the values it
  interpolates.
\<close>

datatype event =
    Subheader string
  | Error string
  | PyException string
  | Text string
  | Info string
  | WriteTotal json
  | WriteRisk json
  | WriteStatus json
  | WriteBox nat real real pyfloat
    \<comment> \<open>index, width in nm, height in nm, size in nm (line 111)\<close>
  | WriteMinCount int
  | WriteAvgCount real
  | WriteMaxCount int
  | Pyplot "string list" "real list"
    \<comment> \<open>the bar chart: labels and bar heights, each bar annotated with its height\<close>

datatype outcome = Completed | Stopped | Raised py_error

section \<open>Size calculation (lines 96--116)\<close>

definition size_nm :: "real \<Rightarrow> real \<Rightarrow> real \<Rightarrow> real \<times> real \<times> pyfloat" where
  "size_nm p width_px height_px =
     (let width_nm = width_px * p;
          height_nm = height_px * p
      in (width_nm, height_nm, np_sqrt (width_nm * height_nm)))"

definition box_size :: "real \<Rightarrow> json \<Rightarrow> py_error + (real \<times> real \<times> pyfloat)" where
  "box_size p box =
     (case dict_get box ''width'' (JNum 0) of
        Inl e \<Rightarrow> Inl e
      | Inr width_px \<Rightarrow>
          (case dict_get box ''height'' (JNum 0) of
             Inl e \<Rightarrow> Inl e
           | Inr height_px \<Rightarrow>
               (case as_num width_px of
                  Inl e \<Rightarrow> Inl e
                | Inr w \<Rightarrow>
                    (case as_num height_px of
                       Inl e \<Rightarrow> Inl e
                     | Inr h \<Rightarrow> Inr (size_nm p w h)))))"

text \<open>The loop of line 101, with its two accumulators: the list \<open>sizes_nm\<close> and the page.
  An exception leaves both as they were before the failing box.\<close>

fun size_loop ::
  "real \<Rightarrow> nat \<Rightarrow> json list \<Rightarrow> pyfloat list \<Rightarrow> event list
     \<Rightarrow> pyfloat list \<times> event list \<times> py_error option" where
  "size_loop p i [] sizes_nm out = (sizes_nm, out, None)"
| "size_loop p i (box # rest) sizes_nm out =
     (case box_size p box of
        Inl e \<Rightarrow> (sizes_nm, out, Some e)
      | Inr (width_nm, height_nm, s) \<Rightarrow>
          size_loop p (Suc i) rest (sizes_nm @ [s])
            (out @ [WriteBox i width_nm height_nm s]))"

section \<open>Size statistics and chart (lines 118--149)\<close>

record summary =
  min_size :: pyfloat
  max_size :: pyfloat
  avg_size :: pyfloat
  min_thresh :: pyfloat
  max_thresh :: pyfloat
  min_count :: int
  max_count :: int
  avg_count :: real

text \<open>Lines 120--129, for a numeric \<open>total_count\<close>.\<close>

definition size_summary :: "real \<Rightarrow> pyfloat list \<Rightarrow> py_error + summary" where
  "size_summary total_count sizes_nm =
     (case py_min sizes_nm of
        Inl e \<Rightarrow> Inl e
      | Inr mn \<Rightarrow>
          (case py_max sizes_nm of
             Inl e \<Rightarrow> Inl e
           | Inr mx \<Rightarrow>
               (let av = fdiv (py_sum sizes_nm) (real (length sizes_nm));
                    lo = fscale mn (110 / 100);
                    hi = fscale mx (90 / 100);
                    c_min = py_count (\<lambda>s. fle s lo) sizes_nm;
                    c_max = py_count (\<lambda>s. fge s hi) sizes_nm
                in Inr \<lparr> min_size = mn, max_size = mx, avg_size = av,
                         min_thresh = lo, max_thresh = hi,
                         min_count = c_min, max_count = c_max,
                         avg_count = total_count - real_of_int c_min - real_of_int c_max \<rparr>)))"

definition size_stats :: "json \<Rightarrow> pyfloat list \<Rightarrow> event list \<Rightarrow> event list \<times> outcome" where
  "size_stats total_count sizes_nm out =
     (if sizes_nm \<noteq> [] then
        (case as_num total_count of
           Inl e \<Rightarrow> (out, Raised e)
         | Inr t \<Rightarrow>
             (case size_summary t sizes_nm of
                Inl e \<Rightarrow> (out, Raised e)
              | Inr s \<Rightarrow>
                  (out @
                   [Subheader ''Size Category Counts'',
                    WriteMinCount (min_count s),
                    WriteAvgCount (avg_count s),
                    WriteMaxCount (max_count s),
                    Pyplot [''Min Size'', ''Average Size'', ''Max Size'']
                      [real_of_int (min_count s), avg_count s, real_of_int (max_count s)]],
                   Completed)))
      else (out @ [Info ''No microplastics detected.''], Completed))"

section \<open>The flow from the API call on (lines 62--149)\<close>

record response =
  status_code :: int
  text_body :: string
  json_body :: "json option"
    \<comment> \<open>what \<^verbatim>\<open>response.json()\<close> returns; \<open>None\<close> when the body is not JSON and it raises\<close>

datatype post_result =
    PostRaised string
    \<comment> \<open>\<^verbatim>\<open>requests.post\<close> raised (connection error, timeout); the exception as text\<close>
  | PostReturned response

text \<open>Lines 85--116 and 118--149 for the parsed body \<open>data\<close>.\<close>

definition render_result :: "config \<Rightarrow> json \<Rightarrow> event list \<Rightarrow> event list \<times> outcome" where
  "render_result cfg data out =
     (case dict_get data ''total_count'' (JNum 0) of
        Inl e \<Rightarrow> (out, Raised e)
      | Inr total_count \<Rightarrow>
     (case dict_get data ''boxes'' (JArr []) of
        Inl e \<Rightarrow> (out, Raised e)
      | Inr boxes \<Rightarrow>
     (case dict_get data ''status'' (JStr ''UNKNOWN'') of
        Inl e \<Rightarrow> (out, Raised e)
      | Inr status \<Rightarrow>
     (case dict_get data ''risk_score'' (JNum 0) of
        Inl e \<Rightarrow> (out, Raised e)
      | Inr risk_score \<Rightarrow>
          (let out1 = out @
                 [Subheader ''Detection Summary'',
                  WriteTotal total_count,
                  WriteRisk risk_score,
                  WriteStatus status,
                  Subheader ''Individual Microplastic Sizes (nm)'']
           in (case py_iter boxes of
                 Inl e \<Rightarrow> (out1, Raised e)
               | Inr bs \<Rightarrow>
                   (case size_loop (pixel_to_nm cfg) 1 bs [] out1 of
                      (sizes_nm, out2, Some e) \<Rightarrow> (out2, Raised e)
                    | (sizes_nm, out2, None) \<Rightarrow> size_stats total_count sizes_nm out2)))))))"

definition detect_flow ::
  "config \<Rightarrow> string option \<Rightarrow> post_result \<Rightarrow> event list \<times> outcome" where
  "detect_flow cfg img_bytes post =
     (case img_bytes of
        None \<Rightarrow> ([], Completed)
      | Some bytes \<Rightarrow>
          (let out = [Subheader ''Running Detection...'']
           in (case post of
                 PostRaised e \<Rightarrow>
                   (out @ [Error ''Could not connect to Detection API'', PyException e],
                    Stopped)
               | PostReturned r \<Rightarrow>
                   if status_code r \<noteq> 200 then
                     (out @ [Error ''Error from detection API'', Text (text_body r)],
                      Stopped)
                   else
                     (case json_body r of
                        None \<Rightarrow> (out, Raised JSONDecodeError)
                      | Some data \<Rightarrow> render_result cfg data out))))"

section \<open>Specification-side notions\<close>

text \<open>A box whose \<open>width\<close> and \<open>height\<close>, read with the default 0 as lines 102--103 do,
  are the numbers \<open>w\<close> and \<open>h\<close>.\<close>

definition has_dims :: "json \<Rightarrow> real \<Rightarrow> real \<Rightarrow> bool" where
  "has_dims box w h =
     ((case dict_get box ''width'' (JNum 0) of
         Inl e \<Rightarrow> False
       | Inr jw \<Rightarrow> as_num jw = Inr w) \<and>
      (case dict_get box ''height'' (JNum 0) of
         Inl e \<Rightarrow> False
       | Inr jh \<Rightarrow> as_num jh = Inr h))"

text \<open>The summary as the specification words it, over sizes that are all numbers:
  least and greatest element, arithmetic mean, the two thresholds, the two tallies and
  the residual.\<close>

definition summary_spec :: "real \<Rightarrow> real list \<Rightarrow> summary" where
  "summary_spec total_count sizes =
     (let mn = Min (set sizes);
          mx = Max (set sizes);
          c_min = int (length (filter (\<lambda>s. s \<le> mn * (110 / 100)) sizes));
          c_max = int (length (filter (\<lambda>s. s \<ge> mx * (90 / 100)) sizes))
      in \<lparr> min_size = Fin mn, max_size = Fin mx,
           avg_size = Fin (sum_list sizes / real (length sizes)),
           min_thresh = Fin (mn * (110 / 100)), max_thresh = Fin (mx * (90 / 100)),
           min_count = c_min, max_count = c_max,
           avg_count = total_count - real_of_int c_min - real_of_int c_max \<rparr>)"


section \<open>Auxiliary facts\<close>

subsection \<open>The builtins on lists of numbers\<close>

lemma foldl_min_Fin:
  "foldl (\<lambda>m s. if flt s m then s else m) (Fin x) (map Fin xs) = Fin (fold min xs x)"
  by (induction xs arbitrary: x) (auto simp: min_def)

lemma foldl_max_Fin:
  "foldl (\<lambda>m s. if fgt s m then s else m) (Fin x) (map Fin xs) = Fin (fold max xs x)"
  by (induction xs arbitrary: x) (auto simp: max_def)

lemma py_min_Fin: "vals \<noteq> [] \<Longrightarrow> py_min (map Fin vals) = Inr (Fin (Min (set vals)))"
  by (cases vals) (simp_all add: foldl_min_Fin Min.set_eq_fold del: set_simps)

lemma py_max_Fin: "vals \<noteq> [] \<Longrightarrow> py_max (map Fin vals) = Inr (Fin (Max (set vals)))"
  by (cases vals) (simp_all add: foldl_max_Fin Max.set_eq_fold del: set_simps fgt.simps)

lemma foldl_fadd_Fin: "foldl fadd (Fin a) (map Fin xs) = Fin (a + sum_list xs)"
  by (induction xs arbitrary: a) (simp_all add: add.assoc)

lemma py_sum_Fin: "py_sum (map Fin xs) = Fin (sum_list xs)"
  by (simp add: py_sum_def foldl_fadd_Fin)

lemma foldl_count:
  "foldl (\<lambda>acc s. acc + (if p s then 1 else 0)) a xs = a + int (length (filter p xs))"
  by (induction xs arbitrary: a) simp_all

lemma py_count_filter: "py_count p xs = int (length (filter p xs))"
  by (simp add: py_count_def foldl_count)

lemma filter_map_Fin_le:
  "length (filter (\<lambda>s. fle s (Fin c)) (map Fin vals)) = length (filter (\<lambda>v. v \<le> c) vals)"
  by (induction vals) simp_all

lemma filter_map_Fin_ge:
  "length (filter (\<lambda>s. fge s (Fin c)) (map Fin vals)) = length (filter (\<lambda>v. v \<ge> c) vals)"
  by (induction vals) simp_all

lemma fle_trans: "fle a b \<Longrightarrow> fle b c \<Longrightarrow> fle a c"
  by (cases a; cases b; cases c) auto

lemma overlap_pigeonhole:
  "length xs < length (filter P xs) + length (filter Q xs) \<Longrightarrow> \<exists>x\<in>set xs. P x \<and> Q x"
proof (induction xs)
  case Nil
  then show ?case by simp
next
  case (Cons a xs)
  then show ?case by (cases "P a"; cases "Q a") auto
qed

subsection \<open>The summary\<close>

lemma size_summary_total: "sizes \<noteq> [] \<Longrightarrow> \<exists>s. size_summary t sizes = Inr s"
  by (cases sizes) (simp_all add: size_summary_def Let_def)

lemma size_summary_Fin:
  assumes "vals \<noteq> []"
  shows "size_summary t (map Fin vals) = Inr (summary_spec t vals)"
proof -
  have len: "length (map Fin vals) = length vals" by simp
  show ?thesis
    unfolding size_summary_def summary_spec_def Let_def
      py_min_Fin[OF assms] py_max_Fin[OF assms] py_sum_Fin py_count_filter
      sum.case fscale.simps fdiv.simps filter_map_Fin_le filter_map_Fin_ge len
    by (rule refl)
qed

lemma size_summary_fields:
  assumes "size_summary t sizes = Inr s"
  shows "py_min sizes = Inr (min_size s)"
    and "py_max sizes = Inr (max_size s)"
    and "avg_size s = fdiv (py_sum sizes) (real (length sizes))"
    and "min_thresh s = fscale (min_size s) (110 / 100)"
    and "max_thresh s = fscale (max_size s) (90 / 100)"
    and "min_count s = int (length (filter (\<lambda>x. fle x (min_thresh s)) sizes))"
    and "max_count s = int (length (filter (\<lambda>x. fge x (max_thresh s)) sizes))"
    and "avg_count s = t - real_of_int (min_count s) - real_of_int (max_count s)"
  using assms unfolding size_summary_def Let_def py_count_filter
  by (cases sizes; auto simp del: fge.simps fgt.simps)+

lemma size_summary_three_equal:
  "size_summary 3 [Fin 100, Fin 100, Fin 100] =
     Inr \<lparr> min_size = Fin 100, max_size = Fin 100, avg_size = Fin 100,
           min_thresh = Fin 110, max_thresh = Fin 90,
           min_count = 3, max_count = 3, avg_count = - 3 \<rparr>"
  by (simp add: size_summary_def py_sum_def py_count_def)

lemma size_summary_three_spread:
  "size_summary 3 [Fin 100, Fin 200, Fin 300] =
     Inr \<lparr> min_size = Fin 100, max_size = Fin 300, avg_size = Fin 200,
           min_thresh = Fin 110, max_thresh = Fin 270,
           min_count = 1, max_count = 1, avg_count = 1 \<rparr>"
  by (simp add: size_summary_def py_sum_def py_count_def)

subsection \<open>Square roots of the scenarios\<close>




subsection \<open>The size loop\<close>

lemma box_size_has_dims: "has_dims box w h \<Longrightarrow> box_size p box = Inr (size_nm p w h)"
  by (auto simp: has_dims_def box_size_def split: sum.splits)

lemma size_loop_ok:
  "list_all2 (\<lambda>b wh. has_dims b (fst wh) (snd wh)) boxes whs \<Longrightarrow>
   size_loop p i boxes acc out =
     (acc @ map (\<lambda>wh. np_sqrt ((fst wh * p) * (snd wh * p))) whs,
      out @ map (\<lambda>(k, wh). WriteBox k (fst wh * p) (snd wh * p)
                   (np_sqrt ((fst wh * p) * (snd wh * p)))) (zip [i ..< i + length whs] whs),
      None)"
proof (induction boxes arbitrary: whs i acc out)
  case Nil
  then show ?case by simp
next
  case (Cons b bs)
  then obtain wh whs' where w: "whs = wh # whs'" "has_dims b (fst wh) (snd wh)"
     "list_all2 (\<lambda>b wh. has_dims b (fst wh) (snd wh)) bs whs'"
    by (auto simp: list_all2_Cons1)
  have up: "[i ..< i + length (wh # whs')] = i # [Suc i ..< Suc i + length whs']"
    by (simp add: upt_rec)
  show ?case
    unfolding w(1) up
    using Cons.IH[OF w(3)] box_size_has_dims[OF w(2)]
    by (simp add: size_nm_def Let_def del: np_sqrt.simps)
qed

lemma size_loop_appends: "\<exists>evs. fst (snd (size_loop p i bs acc out)) = out @ evs"
proof (induction bs arbitrary: i acc out)
  case Nil
  then show ?case by simp
next
  case (Cons b bs)
  show ?case
  proof (cases "box_size p b")
    case (Inl e)
    then show ?thesis by simp
  next
    case (Inr t)
    obtain wn hn s where t: "t = (wn, hn, s)" by (cases t) auto
    from Cons.IH[of "Suc i" "acc @ [s]" "out @ [WriteBox i wn hn s]"]
    show ?thesis using Inr t by auto
  qed
qed

subsection \<open>The statistics block and the rendering of a parsed body\<close>

lemma size_stats_appends: "\<exists>evs. fst (size_stats tc sizes out) = out @ evs"
  by (auto simp: size_stats_def split: sum.splits)

lemma size_stats_numeric: "as_num tc = Inr t \<Longrightarrow> snd (size_stats tc sizes out) = Completed"
  using size_summary_total[of sizes t] by (auto simp: size_stats_def)

lemma render_result_parsed:
  "\<exists>rest oc. render_result cfg (JObj kvs) out =
     (out @ [Subheader ''Detection Summary'',
             WriteTotal (case map_of kvs ''total_count'' of None \<Rightarrow> JNum 0 | Some v \<Rightarrow> v),
             WriteRisk (case map_of kvs ''risk_score'' of None \<Rightarrow> JNum 0 | Some v \<Rightarrow> v),
             WriteStatus (case map_of kvs ''status'' of None \<Rightarrow> JStr ''UNKNOWN'' | Some v \<Rightarrow> v),
             Subheader ''Individual Microplastic Sizes (nm)''] @ rest, oc)"
proof -
  let ?tc = "case map_of kvs ''total_count'' of None \<Rightarrow> JNum 0 | Some v \<Rightarrow> v"
  let ?bx = "case map_of kvs ''boxes'' of None \<Rightarrow> JArr [] | Some v \<Rightarrow> v"
  let ?out1 = "out @ [Subheader ''Detection Summary'',
             WriteTotal ?tc,
             WriteRisk (case map_of kvs ''risk_score'' of None \<Rightarrow> JNum 0 | Some v \<Rightarrow> v),
             WriteStatus (case map_of kvs ''status'' of None \<Rightarrow> JStr ''UNKNOWN'' | Some v \<Rightarrow> v),
             Subheader ''Individual Microplastic Sizes (nm)'']"
  have r: "render_result cfg (JObj kvs) out =
      (case py_iter ?bx of
         Inl e \<Rightarrow> (?out1, Raised e)
       | Inr bs \<Rightarrow>
           (case size_loop (pixel_to_nm cfg) 1 bs [] ?out1 of
              (sizes_nm, out2, Some e) \<Rightarrow> (out2, Raised e)
            | (sizes_nm, out2, None) \<Rightarrow> size_stats ?tc sizes_nm out2))"
    by (simp add: render_result_def Let_def)
  show ?thesis
  proof (cases "py_iter ?bx")
    case (Inl e)
    with r have "render_result cfg (JObj kvs) out = (?out1 @ [], Raised e)" by simp
    then show ?thesis by (metis append_assoc)
  next
    case (Inr bs)
    obtain sz out2 er where l: "size_loop (pixel_to_nm cfg) 1 bs [] ?out1 = (sz, out2, er)"
      by (cases "size_loop (pixel_to_nm cfg) 1 bs [] ?out1") auto
    from size_loop_appends[of "pixel_to_nm cfg" 1 bs "[]" ?out1] l
    obtain e1 where e1: "out2 = ?out1 @ e1" by auto
    show ?thesis
    proof (cases er)
      case (Some e)
      with r Inr l e1 have "render_result cfg (JObj kvs) out = (?out1 @ e1, Raised e)"
        by (simp del: One_nat_def)
      then show ?thesis by (metis append_assoc)
    next
      case None
      from size_stats_appends[of ?tc sz out2] obtain e2
        where "fst (size_stats ?tc sz out2) = out2 @ e2" by blast
      with r Inr l e1 None
      have "render_result cfg (JObj kvs) out = (?out1 @ (e1 @ e2), snd (size_stats ?tc sz out2))"
        by (simp add: prod_eq_iff del: One_nat_def)
      then show ?thesis by (metis append_assoc)
    qed
  qed
qed

lemma render_result_no_boxes:
  assumes "dict_get data ''boxes'' (JArr []) = Inr (JArr [])"
  shows "\<exists>tc rs st. render_result cfg data out =
          (out @ [Subheader ''Detection Summary'', WriteTotal tc, WriteRisk rs, WriteStatus st,
                  Subheader ''Individual Microplastic Sizes (nm)'',
                  Info ''No microplastics detected.''], Completed)"
proof -
  from assms obtain kvs where d: "data = JObj kvs" by (cases data) auto
  show ?thesis using assms unfolding d
    by (simp add: render_result_def Let_def size_stats_def)
qed

lemma render_result_total_missing:
  assumes "map_of kvs ''total_count'' = None"
    and "map_of kvs ''boxes'' = Some (JArr bs)"
    and "list_all2 (\<lambda>b wh. has_dims b (fst wh) (snd wh)) bs whs"
  shows "snd (render_result cfg (JObj kvs) out) = Completed"
  unfolding render_result_def Let_def
  by (simp add: assms(1,2) size_loop_ok[OF assms(3)] size_stats_numeric
      del: One_nat_def np_sqrt.simps)

lemma render_result_pixel_only:
  assumes "pixel_to_nm cfg = pixel_to_nm cfg'"
  shows "render_result cfg data out = render_result cfg' data out"
  unfolding render_result_def assms by (rule refl)

lemma detect_flow_pixel_only:
  assumes "pixel_to_nm cfg = pixel_to_nm cfg'"
  shows "detect_flow cfg img_bytes post = detect_flow cfg' img_bytes post"
  unfolding detect_flow_def render_result_pixel_only[OF assms] by (rule refl)

section \<open>Summary statistics\<close>



text \<open>
  Claim C3. Let the sizes be non-empty and \<open>total_count\<close> be their number (the number
  of boxes). Then the summary exists; \<open>min_count + max_count\<close> exceeds \<open>total_count\<close>
  only when \<open>min_thresh \<ge> max_thresh\<close>; and when \<open>min_thresh < max_thresh\<close> the three
  counts add up to \<open>total_count\<close>.
\<close>

theorem bucket_overlap_needs_crossed_thresholds:
  assumes "sizes \<noteq> []"
  shows "\<exists>s. size_summary (real (length sizes)) sizes = Inr s
     \<and> (real (length sizes) < real_of_int (min_count s + max_count s)
          \<longrightarrow> fge (min_thresh s) (max_thresh s))
     \<and> (flt (min_thresh s) (max_thresh s)
          \<longrightarrow> real_of_int (min_count s) + avg_count s + real_of_int (max_count s)
                = real (length sizes))"
proof -
  obtain s where s: "size_summary (real (length sizes)) sizes = Inr s"
    using size_summary_total[OF assms] by blast
  note cnt = size_summary_fields(6-8)[OF s]
  have "fge (min_thresh s) (max_thresh s)"
    if "real (length sizes) < real_of_int (min_count s + max_count s)"
  proof -
    from that have "length sizes < length (filter (\<lambda>x. fle x (min_thresh s)) sizes)
        + length (filter (\<lambda>x. fge x (max_thresh s)) sizes)"
      unfolding cnt by linarith
    from overlap_pigeonhole[OF this] obtain y
      where "fle y (min_thresh s)" "fle (max_thresh s) y" by auto
    then show ?thesis using fle_trans by auto
  qed
  moreover have "real_of_int (min_count s) + avg_count s + real_of_int (max_count s)
                = real (length sizes)"
    unfolding cnt(3) by simp
  ultimately show ?thesis using s by blast
qed

theorem bucket_overlap_needs_crossed_thresholds_witness:
  "(\<exists>s. size_summary (real (length [Fin 100, Fin 100, Fin 100])) [Fin 100, Fin 100, Fin 100] = Inr s
        \<and> real (length [Fin 100, Fin 100, Fin 100]) < real_of_int (min_count s + max_count s)
        \<and> fge (min_thresh s) (max_thresh s))
   \<and> (\<exists>s. size_summary (real (length [Fin 100, Fin 200, Fin 300])) [Fin 100, Fin 200, Fin 300] = Inr s
        \<and> flt (min_thresh s) (max_thresh s)
        \<and> real_of_int (min_count s) + avg_count s + real_of_int (max_count s)
            = real (length [Fin 100, Fin 200, Fin 300]))"
proof -
  have a: "[Fin 100, Fin 100, Fin 100] \<noteq> []" and b: "[Fin 100, Fin 200, Fin 300] \<noteq> []"
    by simp_all
  have la: "real (length [Fin 100, Fin 100, Fin 100]) = 3"
    and lb: "real (length [Fin 100, Fin 200, Fin 300]) = 3"
    by simp_all
  from bucket_overlap_needs_crossed_thresholds[OF a] obtain s
    where s: "size_summary (real (length [Fin 100, Fin 100, Fin 100])) [Fin 100, Fin 100, Fin 100] = Inr s"
      and i: "real (length [Fin 100, Fin 100, Fin 100]) < real_of_int (min_count s + max_count s)
          \<longrightarrow> fge (min_thresh s) (max_thresh s)"
    by blast
  from s have "real (length [Fin 100, Fin 100, Fin 100]) < real_of_int (min_count s + max_count s)"
    unfolding la size_summary_three_equal by auto
  with s i have first: "\<exists>s. size_summary (real (length [Fin 100, Fin 100, Fin 100])) [Fin 100, Fin 100, Fin 100] = Inr s
        \<and> real (length [Fin 100, Fin 100, Fin 100]) < real_of_int (min_count s + max_count s)
        \<and> fge (min_thresh s) (max_thresh s)"
    by blast
  from bucket_overlap_needs_crossed_thresholds[OF b] obtain u
    where u: "size_summary (real (length [Fin 100, Fin 200, Fin 300])) [Fin 100, Fin 200, Fin 300] = Inr u"
      and j: "flt (min_thresh u) (max_thresh u)
          \<longrightarrow> real_of_int (min_count u) + avg_count u + real_of_int (max_count u)
                = real (length [Fin 100, Fin 200, Fin 300])"
    by blast
  from u have "flt (min_thresh u) (max_thresh u)"
    unfolding lb size_summary_three_spread by auto
  with u j have "\<exists>s. size_summary (real (length [Fin 100, Fin 200, Fin 300])) [Fin 100, Fin 200, Fin 300] = Inr s
        \<and> flt (min_thresh s) (max_thresh s)
        \<and> real_of_int (min_count s) + avg_count s + real_of_int (max_count s)
            = real (length [Fin 100, Fin 200, Fin 300])"
    by blast
  with first show ?thesis by blast
qed

text \<open>
  Claim C10. For a non-empty list of non-negative sizes the summary exists and both
  extreme buckets hold at least one size: \<open>min_count \<ge> 1\<close> and \<open>max_count \<ge> 1\<close>.
\<close>

theorem extreme_buckets_nonempty:
  assumes "vals \<noteq> []" and "\<forall>v\<in>set vals. 0 \<le> v"
  shows "\<exists>s. size_summary t (map Fin vals) = Inr s \<and> 1 \<le> min_count s \<and> 1 \<le> max_count s"
proof -
  have mn: "Min (set vals) \<in> set vals" and mx: "Max (set vals) \<in> set vals"
    using assms(1) by (simp_all del: set_simps)
  from mn assms(2) have "Min (set vals) \<le> Min (set vals) * (110 / 100)" by auto
  with mn have "Min (set vals) \<in> set (filter (\<lambda>s. s \<le> Min (set vals) * (110 / 100)) vals)"
    by simp
  then have a: "1 \<le> length (filter (\<lambda>s. s \<le> Min (set vals) * (110 / 100)) vals)"
    by (metis One_nat_def Suc_leI length_pos_if_in_set)
  from mx assms(2) have "Max (set vals) * (90 / 100) \<le> Max (set vals)" by auto
  with mx have "Max (set vals) \<in> set (filter (\<lambda>s. s \<ge> Max (set vals) * (90 / 100)) vals)"
    by simp
  then have b: "1 \<le> length (filter (\<lambda>s. s \<ge> Max (set vals) * (90 / 100)) vals)"
    by (metis One_nat_def Suc_leI length_pos_if_in_set)
  show ?thesis
    unfolding size_summary_Fin[OF assms(1)] using a b
    by (simp add: summary_spec_def Let_def)
qed

theorem extreme_buckets_nonempty_witness:
  "[100, 200, 300 :: real] \<noteq> [] \<and> (0::real) \<le> 100 \<and> (0::real) \<le> 200 \<and> (0::real) \<le> 300
   \<and> (\<exists>s. size_summary 3 (map Fin [100, 200, 300]) = Inr s \<and> 1 \<le> min_count s \<and> 1 \<le> max_count s)"
proof -
  have ne: "[100, 200, 300 :: real] \<noteq> []" by simp
  have nn: "\<forall>v\<in>set [100, 200, 300 :: real]. 0 \<le> v" by simp
  from extreme_buckets_nonempty[OF ne nn, of 3] ne show ?thesis by simp
qed

section \<open>Per-box sizes\<close>



text \<open>
  Claim C6. The size is symmetric in the two dimensions: exchanging \<open>width_px\<close> and
  \<open>height_px\<close> gives the same \<open>size_nm\<close>, for every conversion factor; for two boxes
  with exchanged dimensions the loop body computes the same size (and the exchanged
  converted dimensions).
\<close>

theorem size_nm_symmetric:
  "snd (snd (size_nm p w h)) = snd (snd (size_nm p h w))
   \<and> (has_dims b w h \<and> has_dims b' h w
        \<longrightarrow> (\<exists>wn hn s. box_size p b = Inr (wn, hn, s) \<and> box_size p b' = Inr (hn, wn, s)))"
  by (auto simp: size_nm_def Let_def box_size_has_dims mult.commute)

theorem size_nm_symmetric_witness:
  "has_dims (JObj [(''width'', JNum 1), (''height'', JNum 2)]) 1 2
   \<and> has_dims (JObj [(''width'', JNum 2), (''height'', JNum 1)]) 2 1
   \<and> (\<exists>wn hn s. box_size 100 (JObj [(''width'', JNum 1), (''height'', JNum 2)]) = Inr (wn, hn, s)
         \<and> box_size 100 (JObj [(''width'', JNum 2), (''height'', JNum 1)]) = Inr (hn, wn, s))"
proof -
  have a: "has_dims (JObj [(''width'', JNum 1), (''height'', JNum 2)]) 1 2"
    and b: "has_dims (JObj [(''width'', JNum 2), (''height'', JNum 1)]) 2 1"
    by (simp_all add: has_dims_def)
  from size_nm_symmetric[of 100 1 2 "JObj [(''width'', JNum 1), (''height'', JNum 2)]"
      "JObj [(''width'', JNum 2), (''height'', JNum 1)]"] a b
  show ?thesis by blast
qed

section \<open>The identical-size scenario\<close>


section \<open>Empty input and missing fields\<close>

text \<open>
  Claim C5. With no box, the loop leaves the list of sizes empty and the statistics
  block only shows the information "No microplastics detected.": for a 200 response
  whose \<open>boxes\<close> is the empty list (or absent), the whole flow shows the detection
  summary and that information and completes; no bucket count and no chart is shown.
\<close>

theorem empty_boxes_empty_input:
  "size_loop p i [] [] out = ([], out, None)
   \<and> size_stats total_count [] out = (out @ [Info ''No microplastics detected.''], Completed)
   \<and> (status_code r = 200 \<and> json_body r = Some data
        \<and> dict_get data ''boxes'' (JArr []) = Inr (JArr [])
       \<longrightarrow> (\<exists>tc rs st. detect_flow cfg (Some bytes) (PostReturned r) =
             ([Subheader ''Running Detection...'',
               Subheader ''Detection Summary'', WriteTotal tc, WriteRisk rs, WriteStatus st,
               Subheader ''Individual Microplastic Sizes (nm)'',
               Info ''No microplastics detected.''], Completed)))"
proof -
  have "\<exists>tc rs st. detect_flow cfg (Some bytes) (PostReturned r) =
             ([Subheader ''Running Detection...'',
               Subheader ''Detection Summary'', WriteTotal tc, WriteRisk rs, WriteStatus st,
               Subheader ''Individual Microplastic Sizes (nm)'',
               Info ''No microplastics detected.''], Completed)"
    if "status_code r = 200" "json_body r = Some data"
       "dict_get data ''boxes'' (JArr []) = Inr (JArr [])"
    using render_result_no_boxes[OF that(3), of cfg "[Subheader ''Running Detection...'']"]
      that(1,2)
    by (simp add: detect_flow_def)
  then show ?thesis by (simp add: size_stats_def)
qed

theorem empty_boxes_empty_input_witness:
  "status_code \<lparr> status_code = 200, text_body = [], json_body = Some (JObj [(''boxes'', JArr [])]) \<rparr> = 200
   \<and> json_body \<lparr> status_code = 200, text_body = [], json_body = Some (JObj [(''boxes'', JArr [])]) \<rparr>
       = Some (JObj [(''boxes'', JArr [])])
   \<and> dict_get (JObj [(''boxes'', JArr [])]) ''boxes'' (JArr []) = Inr (JArr [])
   \<and> (\<exists>tc rs st. detect_flow app_config (Some ''img'')
         (PostReturned \<lparr> status_code = 200, text_body = [], json_body = Some (JObj [(''boxes'', JArr [])]) \<rparr>) =
             ([Subheader ''Running Detection...'',
               Subheader ''Detection Summary'', WriteTotal tc, WriteRisk rs, WriteStatus st,
               Subheader ''Individual Microplastic Sizes (nm)'',
               Info ''No microplastics detected.''], Completed))"
proof -
  let ?r = "\<lparr> status_code = 200, text_body = [], json_body = Some (JObj [(''boxes'', JArr [])]) \<rparr>"
  have h: "status_code ?r = 200 \<and> json_body ?r = Some (JObj [(''boxes'', JArr [])])
       \<and> dict_get (JObj [(''boxes'', JArr [])]) ''boxes'' (JArr []) = Inr (JArr [])"
    by simp
  from empty_boxes_empty_input[of _ _ _ _ ?r "JObj [(''boxes'', JArr [])]" app_config "''img''"] h
  show ?thesis by blast
qed

text \<open>
  Claim C7. A field that is missing from the response dict takes its default and
  nothing fails: \<open>get\<close> returns the default for an absent key; for every response dict
  the summary is displayed with \<open>total_count\<close>, \<open>risk_score\<close> and \<open>status\<close> replaced by
  0, 0 and "UNKNOWN" where absent; a response with no field at all, and any response
  without the key \<open>boxes\<close>, ends in the "No microplastics detected." state and
  completes; a missing \<open>total_count\<close> does not make the statistics of well-formed boxes
  fail; and a box without \<open>width\<close> or \<open>height\<close> contributes 0 for that dimension.
\<close>

theorem missing_fields_default:
  "(map_of kvs k = None \<longrightarrow> dict_get (JObj kvs) k d = Inr d)
   \<and> (\<exists>rest oc. render_result cfg (JObj kvs) out =
         (out @ [Subheader ''Detection Summary'',
             WriteTotal (case map_of kvs ''total_count'' of None \<Rightarrow> JNum 0 | Some v \<Rightarrow> v),
             WriteRisk (case map_of kvs ''risk_score'' of None \<Rightarrow> JNum 0 | Some v \<Rightarrow> v),
             WriteStatus (case map_of kvs ''status'' of None \<Rightarrow> JStr ''UNKNOWN'' | Some v \<Rightarrow> v),
             Subheader ''Individual Microplastic Sizes (nm)''] @ rest, oc))
   \<and> render_result cfg (JObj []) out =
         (out @ [Subheader ''Detection Summary'', WriteTotal (JNum 0), WriteRisk (JNum 0),
                 WriteStatus (JStr ''UNKNOWN''),
                 Subheader ''Individual Microplastic Sizes (nm)'',
                 Info ''No microplastics detected.''], Completed)
   \<and> (map_of kvs ''boxes'' = None \<longrightarrow>
        (\<exists>tc rs st. render_result cfg (JObj kvs) out =
          (out @ [Subheader ''Detection Summary'', WriteTotal tc, WriteRisk rs, WriteStatus st,
                  Subheader ''Individual Microplastic Sizes (nm)'',
                  Info ''No microplastics detected.''], Completed)))
   \<and> (map_of kvs ''total_count'' = None \<and> map_of kvs ''boxes'' = Some (JArr bs)
        \<and> list_all2 (\<lambda>b wh. has_dims b (fst wh) (snd wh)) bs whs \<longrightarrow>
        snd (render_result cfg (JObj kvs) out) = Completed)
   \<and> (map_of bkvs ''width'' = None \<and> map_of bkvs ''height'' = Some (JNum h) \<longrightarrow>
        box_size p (JObj bkvs) = Inr (0, h * p, Fin 0))
   \<and> (map_of bkvs ''width'' = Some (JNum w) \<and> map_of bkvs ''height'' = None \<longrightarrow>
        box_size p (JObj bkvs) = Inr (w * p, 0, Fin 0))
   \<and> (map_of bkvs ''width'' = None \<and> map_of bkvs ''height'' = None \<longrightarrow>
        box_size p (JObj bkvs) = Inr (0, 0, Fin 0))"
proof -
  have a: "map_of kvs k = None \<longrightarrow> dict_get (JObj kvs) k d = Inr d" by simp
  have c: "render_result cfg (JObj []) out =
         (out @ [Subheader ''Detection Summary'', WriteTotal (JNum 0), WriteRisk (JNum 0),
                 WriteStatus (JStr ''UNKNOWN''),
                 Subheader ''Individual Microplastic Sizes (nm)'',
                 Info ''No microplastics detected.''], Completed)"
    by (simp add: render_result_def Let_def size_stats_def)
  have d: "\<exists>tc rs st. render_result cfg (JObj kvs) out =
          (out @ [Subheader ''Detection Summary'', WriteTotal tc, WriteRisk rs, WriteStatus st,
                  Subheader ''Individual Microplastic Sizes (nm)'',
                  Info ''No microplastics detected.''], Completed)"
    if "map_of kvs ''boxes'' = None"
    by (rule render_result_no_boxes) (simp add: that)
  have t: "snd (render_result cfg (JObj kvs) out) = Completed"
    if "map_of kvs ''total_count'' = None \<and> map_of kvs ''boxes'' = Some (JArr bs)
        \<and> list_all2 (\<lambda>b wh. has_dims b (fst wh) (snd wh)) bs whs"
    using that render_result_total_missing[of kvs bs whs cfg out] by blast
  have e: "box_size p (JObj bkvs) = Inr (0, h * p, Fin 0)"
    if "map_of bkvs ''width'' = None \<and> map_of bkvs ''height'' = Some (JNum h)"
    using that by (simp add: box_size_def size_nm_def)
  have f: "box_size p (JObj bkvs) = Inr (w * p, 0, Fin 0)"
    if "map_of bkvs ''width'' = Some (JNum w) \<and> map_of bkvs ''height'' = None"
    using that by (simp add: box_size_def size_nm_def)
  have g: "box_size p (JObj bkvs) = Inr (0, 0, Fin 0)"
    if "map_of bkvs ''width'' = None \<and> map_of bkvs ''height'' = None"
    using that by (simp add: box_size_def size_nm_def)
  from a render_result_parsed[of cfg kvs out] c d t e f g show ?thesis by blast
qed

theorem missing_fields_default_witness:
  "dict_get (JObj [(''status'', JStr ''SAFE'')]) ''boxes'' (JArr []) = Inr (JArr [])
   \<and> (\<exists>tc rs st. render_result app_config (JObj [(''status'', JStr ''SAFE'')]) [] =
          ([Subheader ''Detection Summary'', WriteTotal tc, WriteRisk rs, WriteStatus st,
            Subheader ''Individual Microplastic Sizes (nm)'',
            Info ''No microplastics detected.''], Completed))
   \<and> snd (render_result app_config (JObj [(''boxes'', JArr [JObj [(''height'', JNum 2)]])]) [])
       = Completed
   \<and> box_size 100 (JObj [(''height'', JNum 2)]) = Inr (0, 200, Fin 0)
   \<and> box_size 100 (JObj [(''width'', JNum 2)]) = Inr (200, 0, Fin 0)
   \<and> box_size 100 (JObj []) = Inr (0, 0, Fin 0)"
proof -
  have k: "map_of [(''status'', JStr ''SAFE'')] ''boxes'' = None" by simp
  have b: "map_of [(''boxes'', JArr [JObj [(''height'', JNum 2)]])] ''total_count'' = None
      \<and> map_of [(''boxes'', JArr [JObj [(''height'', JNum 2)]])] ''boxes''
          = Some (JArr [JObj [(''height'', JNum 2)]])
      \<and> list_all2 (\<lambda>b wh. has_dims b (fst wh) (snd wh)) [JObj [(''height'', JNum 2)]] [(0, 2)]"
    by (simp add: has_dims_def)
  have hh: "map_of [(''height'', JNum 2)] ''width'' = None
      \<and> map_of [(''height'', JNum 2)] ''height'' = Some (JNum 2)" by simp
  have ww: "map_of [(''width'', JNum 2)] ''width'' = Some (JNum 2)
      \<and> map_of [(''width'', JNum 2)] ''height'' = None" by simp
  have nn: "map_of ([] :: (string \<times> json) list) ''width'' = None
      \<and> map_of ([] :: (string \<times> json) list) ''height'' = None" by simp
  from k missing_fields_default[where kvs = "[(''status'', JStr ''SAFE'')]" and k = "''boxes''"
      and d = "JArr []" and cfg = app_config and out = "[]"]
  have 1: "dict_get (JObj [(''status'', JStr ''SAFE'')]) ''boxes'' (JArr []) = Inr (JArr [])"
    and 2: "\<exists>tc rs st. render_result app_config (JObj [(''status'', JStr ''SAFE'')]) [] =
          ([Subheader ''Detection Summary'', WriteTotal tc, WriteRisk rs, WriteStatus st,
            Subheader ''Individual Microplastic Sizes (nm)'',
            Info ''No microplastics detected.''], Completed)"
    by simp_all
  from b missing_fields_default[where kvs = "[(''boxes'', JArr [JObj [(''height'', JNum 2)]])]"
      and bs = "[JObj [(''height'', JNum 2)]]" and whs = "[(0, 2)]"
      and cfg = app_config and out = "[]"]
  have 3: "snd (render_result app_config (JObj [(''boxes'', JArr [JObj [(''height'', JNum 2)]])]) [])
       = Completed"
    by blast
  from hh missing_fields_default[where bkvs = "[(''height'', JNum 2)]" and h = 2 and p = 100]
  have 4: "box_size 100 (JObj [(''height'', JNum 2)]) = Inr (0, 200, Fin 0)"
    by simp
  from ww missing_fields_default[where bkvs = "[(''width'', JNum 2)]" and w = 2 and p = 100]
  have 5: "box_size 100 (JObj [(''width'', JNum 2)]) = Inr (200, 0, Fin 0)"
    by simp
  from nn missing_fields_default[where bkvs = "[]" and p = 100]
  have 6: "box_size 100 (JObj []) = Inr (0, 0, Fin 0)"
    by simp
  from 1 2 3 4 5 6 show ?thesis by blast
qed

section \<open>Failure of the detection call\<close>

text \<open>
  Claim C8. When the post raises, or the response status is not 200, the flow shows
  the error (and the exception, or the response text) and stops: nothing of the
  detection summary, no size, no bucket count and no chart is shown.
\<close>

theorem api_failure_halts_flow:
  "detect_flow cfg (Some bytes) (PostRaised e) =
     ([Subheader ''Running Detection...'',
       Error ''Could not connect to Detection API'', PyException e], Stopped)
   \<and> (status_code r \<noteq> 200 \<longrightarrow>
        detect_flow cfg (Some bytes) (PostReturned r) =
          ([Subheader ''Running Detection...'',
            Error ''Error from detection API'', Text (text_body r)], Stopped))"
  by (simp add: detect_flow_def)

theorem api_failure_halts_flow_witness:
  "status_code \<lparr> status_code = 500, text_body = ''Internal Server Error'', json_body = None \<rparr> \<noteq> 200
   \<and> detect_flow app_config (Some ''img'')
        (PostReturned \<lparr> status_code = 500, text_body = ''Internal Server Error'', json_body = None \<rparr>) =
       ([Subheader ''Running Detection...'',
         Error ''Error from detection API'', Text ''Internal Server Error''], Stopped)"
proof -
  have h: "status_code \<lparr> status_code = 500, text_body = ''Internal Server Error'', json_body = None \<rparr> \<noteq> 200"
    by simp
  from api_failure_halts_flow[of app_config "''img''" _ "\<lparr> status_code = 500, text_body = ''Internal Server Error'', json_body = None \<rparr>"] h
  show ?thesis by simp
qed

section \<open>The unused risk threshold\<close>

text \<open>
  Claim C9. The configured risk threshold is inert: for every input and every answer of
  the endpoint, changing \<open>risk_threshold\<close> changes neither what the flow shows nor how
  it ends.
\<close>

theorem risk_threshold_inert: "detect_flow (cfg\<lparr>risk_threshold := r\<rparr>) img_bytes post = detect_flow cfg img_bytes post"
  by (rule detect_flow_pixel_only) simp

end
